theory Spec2Isabelle
  imports Complex_Main "HOL-Library.Char_ord" "HOL-Library.List_Lexorder"
    "HOL-Library.Product_Lexorder"
begin

section \<open>Persistence: the tables of app.py\<close>

text \<open>
  The handlers of app.py talk to PostgreSQL through a cursor. The model keeps the tables
  of \<open>create_tables\<close> as finite maps from the primary key to a row, one record per table,
  with the columns the handlers read or write. A handler takes the database and returns
  its response together with the database it leaves behind: the updated one where the
  handler reaches \<open>conn.commit()\<close>, the old one on every path that closes the connection
  (or raises) before committing.

  Conventions of the model:
  \<^item> \<open>get_db_connection\<close> asks for \<open>RealDictCursor\<close>, so a fetched row is a dictionary
    keyed by the column names: the model keeps it as the record of its columns, read by
    the field of that name, and a subscript by position (\<open>map_data[0]\<close>) finds no key;
  \<^item> the TEXT columns that hold JSON lists (\<open>grid_json\<close>, \<open>dug_json\<close>, \<open>dug_history\<close>) are
    \<open>int list option\<close>: \<open>Some xs\<close> is the text \<open>json.dumps(xs)\<close>, \<open>None\<close> is a text
    that \<open>json.loads\<close> rejects;
  \<^item> REAL columns and Python floats are exact reals (rounding is not modelled);
  \<^item> a point in time is a real number of seconds (\<open>datetime.now()\<close> is an argument of
    the handlers that read the clock); a TIMESTAMP column comes back from the driver as a
    \<open>datetime\<close> object, or as \<open>None\<close> where it is NULL;
  \<^item> a SERIAL key is drawn from a counter kept beside its table.
\<close>

record users_row =
  username :: string
  balance :: real
  builder_credits :: int

record maps_row =
  creator_id :: int
  grid_json :: "int list option"
  dug_json :: "int list option"
  difficulty :: real
  active :: bool
  is_archived :: bool

record raid_sessions_row =
  player_id :: int
  map_id :: int
  current_stage :: int
  status :: string
  earnings_buffer :: real
  dug_history :: "int list option"
  created_at :: real
  expires_at :: "real option"

record transactions_row =
  user_id :: int
  amount :: real
  txn_type :: string

record db =
  users :: "int \<rightharpoonup> users_row"
  maps :: "int \<rightharpoonup> maps_row"
  maps_id_seq :: int
  raid_sessions :: "int \<rightharpoonup> raid_sessions_row"
  raid_sessions_id_seq :: int
  transactions :: "transactions_row list"

datatype exn =
  TypeError | ValueError | IndexError | KeyError | JSONDecodeError | IntegrityError

datatype response =
    JsonError string nat
  | CreateSuccess
  | StartSuccess int "nat list" "int list"
  | DigTimeout
  | DigDead real
  | DigHurt
  | DigSafe real bool
  | LeaveSuccess real
  | ClaimSuccess real
  | Uncaught exn

text \<open>
  \<open>require_auth()\<close> yields the caller's id or \<open>None\<close>; every handler starts with
  \<open>if not user_id\<close>, which is also true of the id 0. The same test guards \<open>map_id\<close>.
\<close>

definition py_not :: "int option \<Rightarrow> bool" where
  "py_not v = (case v of None \<Rightarrow> True | Some n \<Rightarrow> n = 0)"

text \<open>\<open>UPDATE users SET ... WHERE id = uid\<close>: no row, no change.\<close>

definition update_users :: "int \<Rightarrow> (users_row \<Rightarrow> users_row) \<Rightarrow> db \<Rightarrow> db" where
  "update_users uid f d =
     (case users d uid of
        None \<Rightarrow> d
      | Some u \<Rightarrow> d\<lparr>users := (users d)(uid \<mapsto> f u)\<rparr>)"

definition update_maps :: "int \<Rightarrow> (maps_row \<Rightarrow> maps_row) \<Rightarrow> db \<Rightarrow> db" where
  "update_maps mid f d =
     (case maps d mid of
        None \<Rightarrow> d
      | Some m \<Rightarrow> d\<lparr>maps := (maps d)(mid \<mapsto> f m)\<rparr>)"

definition update_raid_sessions ::
  "int \<Rightarrow> (raid_sessions_row \<Rightarrow> raid_sessions_row) \<Rightarrow> db \<Rightarrow> db" where
  "update_raid_sessions sid f d =
     (case raid_sessions d sid of
        None \<Rightarrow> d
      | Some s \<Rightarrow> d\<lparr>raid_sessions := (raid_sessions d)(sid \<mapsto> f s)\<rparr>)"

text \<open>
  \<open>INSERT INTO transactions (user_id, amount, type)\<close>: the ledger grows at its end. The
  table declares \<open>FOREIGN KEY (user_id) REFERENCES users(id)\<close>, so the insert fails when
  there is no such user (\<open>None\<close>; the handler then dies of an IntegrityError).
\<close>

definition insert_transactions :: "int \<Rightarrow> real \<Rightarrow> string \<Rightarrow> db \<Rightarrow> db option" where
  "insert_transactions uid a t d =
     (if users d uid = None then None
      else Some (d\<lparr>transactions :=
                   transactions d @ [\<lparr>user_id = uid, amount = a, txn_type = t\<rparr>]\<rparr>))"

text \<open>
  \<open>INSERT INTO maps (creator_id, grid_json)\<close>: the other columns take the defaults of
  the table (\<open>dug_json '[]'\<close>, \<open>difficulty 1.0\<close>, \<open>active TRUE\<close>, \<open>is_archived FALSE\<close>).
\<close>

definition new_map :: "int \<Rightarrow> int list \<Rightarrow> maps_row" where
  "new_map uid grid =
     \<lparr>creator_id = uid, grid_json = Some grid, dug_json = Some [],
      difficulty = 1, active = True, is_archived = False\<rparr>"

definition insert_maps :: "int \<Rightarrow> int list \<Rightarrow> db \<Rightarrow> db" where
  "insert_maps uid grid d =
     (let new_id = maps_id_seq d + 1 in
      d\<lparr>maps := (maps d)(new_id := Some (new_map uid grid)), maps_id_seq := new_id\<rparr>)"

section \<open>Map builder: \<open>maps_create\<close>\<close>

text \<open>\<open>sum(1 for x in grid if x == c)\<close>\<close>

definition count_cells :: "int \<Rightarrow> int list \<Rightarrow> nat" where
  "count_cells c grid = length (filter (\<lambda>x. x = c) grid)"

text \<open>\<open>[i for i, x in enumerate(grid) if x == c]\<close>\<close>

definition positions :: "int \<Rightarrow> int list \<Rightarrow> nat list" where
  "positions c grid = map fst (filter (\<lambda>(i, x). x = c) (enumerate 0 grid))"

definition maps_create :: "db \<Rightarrow> int option \<Rightarrow> int list option \<Rightarrow> response \<times> db" where
  "maps_create d auth grid_arg =
     (if py_not auth then (JsonError ''Unauthorized'' 401, d)
      else let uid = the auth in
      case grid_arg of
        None \<Rightarrow> (JsonError ''Invalid grid'' 400, d)
      | Some grid \<Rightarrow>
          if grid = [] \<or> length grid \<noteq> 48 then (JsonError ''Invalid grid'' 400, d)
          else let snakes = count_cells 2 grid;
                   holes = count_cells 3 grid;
                   chests = count_cells 4 grid;
                   walls = count_cells 1 grid
          in if snakes \<noteq> 4 \<or> holes \<noteq> 2 \<or> chests \<noteq> 2
             then (JsonError ''Invalid placement'' 400, d)
          else let chest_positions = positions 4 grid
          in if length chest_positions \<noteq> 2
                \<or> \<bar>int (chest_positions ! 0) - int (chest_positions ! 1)\<bar> \<noteq> 1
             then (JsonError ''Chest must be adjacent'' 400, d)
          else case users d uid of
                 None \<Rightarrow> (JsonError ''No credits'' 400, d)
               | Some credits_row \<Rightarrow>
                   if builder_credits credits_row \<le> 0 then (JsonError ''No credits'' 400, d)
                   else let d1 = update_users uid
                                   (\<lambda>u. u\<lparr>builder_credits := builder_credits u - 1\<rparr>) d;
                            d2 = insert_maps uid grid d1
                        in (CreateSuccess, d2))"

section \<open>Raid session engine\<close>

text \<open>
  \<open>INSERT INTO raid_sessions (player_id, map_id, expires_at) ... RETURNING id\<close>: the other
  columns take their defaults (\<open>current_stage 1\<close>, \<open>status 'active'\<close>,
  \<open>earnings_buffer 0.0\<close>, \<open>dug_history '[]'\<close>, \<open>created_at CURRENT_TIMESTAMP\<close>).
\<close>

definition new_session :: "int \<Rightarrow> int \<Rightarrow> real \<Rightarrow> real \<Rightarrow> raid_sessions_row" where
  "new_session uid mid now expiry =
     \<lparr>player_id = uid, map_id = mid, current_stage = 1, status = ''active'',
      earnings_buffer = 0, dug_history = Some [], created_at = now,
      expires_at = Some expiry\<rparr>"





text \<open>
  \<open>datetime.fromisoformat(session['expires_at'])\<close>: the function takes a \<open>str\<close> and raises
  TypeError for anything else. What it is given here is the value of a TIMESTAMP column,
  a \<open>datetime\<close> object or \<open>None\<close>.
\<close>

definition fromisoformat :: "real option \<Rightarrow> exn + real" where
  "fromisoformat v = (case v of None \<Rightarrow> Inl TypeError | Some dt \<Rightarrow> Inl TypeError)"

text \<open>
  \<open>raid_dig\<close>. \<open>safe_json_loads(session['dug_history'], [])\<close> replaces an unreadable history
  by the empty list; an unreadable grid or dug list answers 500. \<open>grid[cell_index]\<close> raises
  IndexError beyond the stored grid (the index is already known to be non-negative).
\<close>

definition raid_dig ::
  "db \<Rightarrow> real \<Rightarrow> int option \<Rightarrow> int option \<Rightarrow> int option \<Rightarrow> response \<times> db" where
  "raid_dig d now auth session_id_arg cell_index_arg =
     (if py_not auth then (JsonError ''Unauthorized'' 401, d)
      else let uid = the auth in
      case session_id_arg of
        None \<Rightarrow> (JsonError ''Missing or invalid data'' 400, d)
      | Some sid \<Rightarrow>
      case cell_index_arg of
        None \<Rightarrow> (JsonError ''Missing or invalid data'' 400, d)
      | Some cell_index \<Rightarrow>
      if cell_index < 0 \<or> cell_index \<ge> 48 then (JsonError ''Missing or invalid data'' 400, d)
      else case raid_sessions d sid of
        None \<Rightarrow> (JsonError ''Session not found'' 404, d)
      | Some session \<Rightarrow>
      if player_id session \<noteq> uid then (JsonError ''Session not found'' 404, d)
      else case fromisoformat (expires_at session) of
        Inl err \<Rightarrow> (Uncaught err, d)
      | Inr expires \<Rightarrow>
      if now > expires
        then (DigTimeout, update_raid_sessions sid (\<lambda>s. s\<lparr>status := ''timeout''\<rparr>) d)
      else let mid = map_id session;
               history = (case dug_history session of None \<Rightarrow> [] | Some h \<Rightarrow> h)
      in if cell_index \<in> set history then (JsonError ''Cell already dug'' 400, d)
      else case maps d mid of
        None \<Rightarrow> (Uncaught TypeError, d)
      | Some map_data \<Rightarrow>
      case grid_json map_data of
        None \<Rightarrow> (JsonError ''Map data corrupted'' 500, d)
      | Some grid \<Rightarrow>
      case dug_json map_data of
        None \<Rightarrow> (JsonError ''Map data corrupted'' 500, d)
      | Some dug \<Rightarrow>
      if nat cell_index \<ge> length grid then (Uncaught IndexError, d)
      else let cell_type = grid ! nat cell_index in
      if cell_type = 2 then
        (let d1 = update_raid_sessions sid (\<lambda>s. s\<lparr>status := ''dead''\<rparr>) d;
             d2 = update_maps mid (\<lambda>m. m\<lparr>dug_json := Some (dug @ [cell_index])\<rparr>) d1
         in (DigDead 0, d2))
      else if cell_type = 3 then
        (DigHurt, update_raid_sessions sid (\<lambda>s. s\<lparr>status := ''hurt''\<rparr>) d)
      else
        (let reward = (if cell_type = 4 then 5 / 100 else 1 / 100);
             buffer = earnings_buffer session + reward;
             d1 = update_raid_sessions sid
                    (\<lambda>s. s\<lparr>earnings_buffer := buffer,
                            dug_history := Some (history @ [cell_index])\<rparr>) d;
             d2 = update_maps mid (\<lambda>m. m\<lparr>dug_json := Some (dug @ [cell_index])\<rparr>) d1;
             opened = length (dug @ [cell_index]);
             stage_complete = (opened \<ge> 12)
         in (DigSafe reward stage_complete, d2)))"

text \<open>
  \<open>raid_leave\<close>: the session is looked up by id and owner only; its status is neither read
  nor tested, and \<open>earnings_buffer\<close> is not written.
\<close>

definition raid_leave :: "db \<Rightarrow> int option \<Rightarrow> int option \<Rightarrow> response \<times> db" where
  "raid_leave d auth session_id_arg =
     (if py_not auth then (JsonError ''Unauthorized'' 401, d)
      else let uid = the auth in
      case session_id_arg of
        None \<Rightarrow> (JsonError ''Session not found'' 404, d)
      | Some sid \<Rightarrow>
      case raid_sessions d sid of
        None \<Rightarrow> (JsonError ''Session not found'' 404, d)
      | Some session \<Rightarrow>
      if player_id session \<noteq> uid then (JsonError ''Session not found'' 404, d)
      else let earnings = earnings_buffer session;
               d1 = update_users uid (\<lambda>u. u\<lparr>balance := balance u + earnings\<rparr>) d
      in case insert_transactions uid earnings ''raid_win'' d1 of
           None \<Rightarrow> (Uncaught IntegrityError, d)
         | Some d2 \<Rightarrow>
             (LeaveSuccess earnings,
              update_raid_sessions sid (\<lambda>s. s\<lparr>status := ''completed''\<rparr>) d2))"

text \<open>
  \<open>sum(1 for i, x in enumerate(grid) if x in [0, 4] and i not in dug)\<close>, as in \<open>my_tombs\<close>
  and \<open>my_tombs_claim\<close>.
\<close>

definition safe_cells :: "int list \<Rightarrow> int list \<Rightarrow> nat" where
  "safe_cells grid dug =
     length (filter (\<lambda>(i, x). (x = 0 \<or> x = 4) \<and> int i \<notin> set dug) (enumerate 0 grid))"

definition my_tombs_claim :: "db \<Rightarrow> int option \<Rightarrow> int option \<Rightarrow> response \<times> db" where
  "my_tombs_claim d auth map_id_arg =
     (if py_not auth then (JsonError ''Unauthorized'' 401, d)
      else let uid = the auth in
      case map_id_arg of
        None \<Rightarrow> (JsonError ''Map not found'' 404, d)
      | Some mid \<Rightarrow>
      case maps d mid of
        None \<Rightarrow> (JsonError ''Map not found'' 404, d)
      | Some map_data \<Rightarrow>
      if creator_id map_data \<noteq> uid then (JsonError ''Map not found'' 404, d)
      else case grid_json map_data of
        None \<Rightarrow> (Uncaught JSONDecodeError, d)
      | Some grid \<Rightarrow>
      case dug_json map_data of
        None \<Rightarrow> (Uncaught JSONDecodeError, d)
      | Some dug \<Rightarrow>
      if safe_cells grid dug \<ge> 12 then (JsonError ''Not ready to claim'' 400, d)
      else let d1 = update_maps mid (\<lambda>m. m\<lparr>active := False\<rparr>) d;
               reward = 1;
               d2 = update_users uid (\<lambda>u. u\<lparr>balance := balance u + reward\<rparr>) d1
      in case insert_transactions uid reward ''claim'' d2 of
           None \<Rightarrow> (Uncaught IntegrityError, d)
         | Some d3 \<Rightarrow> (ClaimSuccess reward, d3))"

section \<open>Signature validator: \<open>validate_init_data\<close>\<close>

text \<open>
  A Python \<open>str\<close> is modelled by the list of the bytes of its UTF-8 encoding, so
  \<open>.encode()\<close> is the identity, equality and the code-point order of \<open>sorted\<close> are those
  of the byte lists, and a character is ASCII exactly when its byte is below 128.

  What \<open>validate_init_data\<close> takes from outside is gathered in a record: the configured
  \<open>BOT_TOKEN\<close>, the clock \<open>time.time()\<close>, and the library functions
  \<open>urllib.parse.parse_qsl(_, keep_blank_values=True)\<close>, \<open>int\<close>, \<open>json.loads\<close> (each
  \<open>None\<close> where the Python function raises) and \<open>hmac.new(key, msg, sha256).digest()\<close>.
\<close>

datatype json =
    JNull | JBool bool | JInt int | JFloat real | JStr string
  | JArr "json list" | JObj "(string \<times> json) list"

record env =
  BOT_TOKEN :: "string option"
  time_time :: real
  parse_qsl :: "string \<Rightarrow> (string \<times> string) list option"
  int_of_str :: "string \<Rightarrow> int option"
  json_loads :: "string \<Rightarrow> json option"
  hmac_sha256 :: "string \<Rightarrow> string \<Rightarrow> string"

text \<open>
  \<open>dict(pairs)\<close>: a later pair replaces the value of an equal key and keeps the key's place.
  \<open>data.pop('hash')\<close> removes the key.
\<close>

fun dict_set :: "'k \<Rightarrow> 'v \<Rightarrow> ('k \<times> 'v) list \<Rightarrow> ('k \<times> 'v) list" where
  "dict_set k v [] = [(k, v)]"
| "dict_set k v ((k', v') # items) =
     (if k' = k then (k, v) # items else (k', v') # dict_set k v items)"

definition dict :: "('k \<times> 'v) list \<Rightarrow> ('k \<times> 'v) list" where
  "dict pairs = foldl (\<lambda>d (k, v). dict_set k v d) [] pairs"

definition dict_pop :: "'k \<Rightarrow> ('k \<times> 'v) list \<Rightarrow> ('k \<times> 'v) list" where
  "dict_pop k d = filter (\<lambda>(k', v). k' \<noteq> k) d"

text \<open>\<open>'\n'.join(f"{k}={v}" for k, v in sorted(data.items()))\<close>\<close>

fun join :: "string \<Rightarrow> string list \<Rightarrow> string" where
  "join sep [] = []"
| "join sep [x] = x"
| "join sep (x # y # rest) = x @ sep @ join sep (y # rest)"

definition data_check_string :: "(string \<times> string) list \<Rightarrow> string" where
  "data_check_string d = join [CHR 0x0A] (map (\<lambda>(k, v). k @ ''='' @ v) (sort d))"

text \<open>\<open>hexdigest()\<close>: two lower-case hexadecimal digits for each byte of the digest.\<close>

definition hex_digit :: "nat \<Rightarrow> char" where
  "hex_digit n = ''0123456789abcdef'' ! n"

definition hexdigest :: "string \<Rightarrow> string" where
  "hexdigest digest =
     concat (map (\<lambda>c. [hex_digit (of_char c div 16), hex_digit (of_char c mod 16)]) digest)"

text \<open>
  \<open>hmac.compare_digest\<close> on two \<open>str\<close> arguments compares them when both are ASCII and
  raises TypeError otherwise.
\<close>

definition is_ascii :: "string \<Rightarrow> bool" where
  "is_ascii s = list_all (\<lambda>c. of_char c < (128::nat)) s"

definition compare_digest :: "string \<Rightarrow> string \<Rightarrow> exn + bool" where
  "compare_digest a b = (if is_ascii a \<and> is_ascii b then Inr (a = b) else Inl TypeError)"

text \<open>
  The expected hash: \<open>secret_key = hmac.new(b'WebAppData', BOT_TOKEN.encode(), sha256).digest()\<close>,
  then the hex digest of the check string under that key. The helper
  \<open>_generate_hash\<close> of the repository's validator tests computes the same value.
\<close>

definition calculated_hash :: "env \<Rightarrow> string \<Rightarrow> (string \<times> string) list \<Rightarrow> string" where
  "calculated_hash e token d =
     (let secret_key = hmac_sha256 e ''WebAppData'' token
      in hexdigest (hmac_sha256 e secret_key (data_check_string d)))"

text \<open>
  The result is \<open>Inl\<close> for an exception that leaves the function, \<open>Inr None\<close> for
  \<open>return None\<close>, and \<open>Inr (Some v)\<close> for a returned identity (\<open>user_data.get('id')\<close> is
  \<open>None\<close> for a missing or null id; a user value that is not an object makes \<open>.get\<close> fail
  inside the \<open>try\<close>).
\<close>

definition validate_init_data :: "env \<Rightarrow> string \<Rightarrow> exn + json option" where
  "validate_init_data e init_data =
     (if init_data = ''mock_init_data'' then Inr (Some (JInt 1))
      else case BOT_TOKEN e of
        None \<Rightarrow> Inl ValueError
      | Some token \<Rightarrow>
      if token = [] then Inl ValueError
      else case parse_qsl e init_data of
        None \<Rightarrow> Inr None
      | Some pairs \<Rightarrow>
      let data = dict pairs in
      case map_of data ''auth_date'' of
        None \<Rightarrow> Inr None
      | Some auth_date \<Rightarrow>
      case int_of_str e auth_date of
        None \<Rightarrow> Inl ValueError
      | Some t \<Rightarrow>
      if time_time e - real_of_int t \<ge> 86400 then Inr None
      else case map_of data ''hash'' of
        None \<Rightarrow> Inr None
      | Some received_hash \<Rightarrow>
      let data' = dict_pop ''hash'' data in
      case compare_digest received_hash (calculated_hash e token data') of
        Inl err \<Rightarrow> Inl err
      | Inr False \<Rightarrow> Inr None
      | Inr True \<Rightarrow>
          (case map_of data' ''user'' of
             None \<Rightarrow> Inr None
           | Some user \<Rightarrow>
               (case json_loads e user of
                  Some (JObj user_data) \<Rightarrow>
                    (case map_of user_data ''id'' of
                       None \<Rightarrow> Inr None
                     | Some JNull \<Rightarrow> Inr None
                     | Some v \<Rightarrow> Inr (Some v))
                | _ \<Rightarrow> Inr None)))"

section \<open>Vocabulary of the properties\<close>

text \<open>
  A grid as the map builder's rules describe it: 48 cells, exactly four traps (code 2), two
  pits (code 3) and two chest halves (code 4), the chest halves at neighbouring indices.
\<close>

definition well_formed_grid :: "int list \<Rightarrow> bool" where
  "well_formed_grid g \<longleftrightarrow>
     length g = 48 \<and> count_list g 2 = 4 \<and> count_list g 3 = 2 \<and> count_list g 4 = 2
     \<and> list_ex (\<lambda>i. g ! i = 4 \<and> g ! Suc i = 4) [0..<47]"

text \<open>The three answers of \<open>maps_create\<close> to a malformed grid (all with status 400).\<close>

definition validation_error :: "response \<Rightarrow> bool" where
  "validation_error r \<longleftrightarrow>
     r = JsonError ''Invalid grid'' 400 \<or> r = JsonError ''Invalid placement'' 400
     \<or> r = JsonError ''Chest must be adjacent'' 400"


text \<open>
  The remaining safe cells of a map: the indices of the grid that hold an empty cell
  (code 0) or a chest half (code 4) and are not in the shared dug list.
\<close>

definition remaining_safe_cells :: "int list \<Rightarrow> int list \<Rightarrow> nat" where
  "remaining_safe_cells grid dug =
     length (filter (\<lambda>i. (grid ! i = 0 \<or> grid ! i = 4) \<and> int i \<notin> set dug) [0..<length grid])"


subsection \<open>Sample data\<close>

text \<open>
  One registered player holding the initial balance 1.0 and five builder credits, and the
  layout of the example scenario: 16 walls, 4 traps, 2 pits, a chest on two neighbouring
  cells, 24 empty cells. The second grid differs by having no wall at all.
\<close>

definition example_db :: db where
  "example_db =
     \<lparr>users = [1 \<mapsto> \<lparr>username = ''user_1'', balance = 1, builder_credits = 5\<rparr>],
      maps = Map.empty, maps_id_seq = 0,
      raid_sessions = Map.empty, raid_sessions_id_seq = 0,
      transactions = []\<rparr>"

definition example_grid :: "int list" where
  "example_grid =
     [1, 1, 1, 1, 1, 1, 1, 1, 1, 1, 1, 1, 1, 1, 1, 1,
      2, 2, 2, 2, 3, 3, 4, 4,
      0, 0, 0, 0, 0, 0, 0, 0, 0, 0, 0, 0, 0, 0, 0, 0, 0, 0, 0, 0, 0, 0, 0, 0]"

definition wall_free_grid :: "int list" where
  "wall_free_grid =
     [2, 2, 2, 2, 3, 3, 4, 4,
      0, 0, 0, 0, 0, 0, 0, 0, 0, 0, 0, 0, 0, 0, 0, 0, 0, 0, 0, 0, 0, 0, 0, 0,
      0, 0, 0, 0, 0, 0, 0, 0, 0, 0, 0, 0, 0, 0, 0, 0]"


text \<open>
  A database for the raid engine: the builder (user 1) has published the example layout as
  map 1; users 2 and 3 are raiders. In \<open>started_db\<close> each raider holds a fresh session on
  map 1 that expires at time 120. In \<open>played_db\<close> raider 2 holds a session that has earned
  0.01 and then died. In \<open>claimable_db\<close> fifteen empty cells of map 1 have been opened.
\<close>

definition raid_db :: db where
  "raid_db =
     \<lparr>users = [1 \<mapsto> \<lparr>username = ''user_1'', balance = 1, builder_credits = 4\<rparr>,
               2 \<mapsto> \<lparr>username = ''user_2'', balance = 1, builder_credits = 5\<rparr>,
               3 \<mapsto> \<lparr>username = ''user_3'', balance = 1, builder_credits = 5\<rparr>],
      maps = [1 \<mapsto> new_map 1 example_grid], maps_id_seq = 1,
      raid_sessions = Map.empty, raid_sessions_id_seq = 0,
      transactions = []\<rparr>"

definition started_db :: db where
  "started_db =
     raid_db\<lparr>raid_sessions := [1 \<mapsto> new_session 2 1 0 120, 2 \<mapsto> new_session 3 1 0 120],
             raid_sessions_id_seq := 2\<rparr>"

definition dead_session :: raid_sessions_row where
  "dead_session =
     \<lparr>player_id = 2, map_id = 1, current_stage = 1, status = ''dead'',
      earnings_buffer = 1 / 100, dug_history = Some [24], created_at = 0,
      expires_at = Some 120\<rparr>"

definition played_db :: db where
  "played_db = raid_db\<lparr>raid_sessions := [1 \<mapsto> dead_session], raid_sessions_id_seq := 1\<rparr>"

definition claimable_db :: db where
  "claimable_db =
     raid_db\<lparr>maps := [1 \<mapsto> (new_map 1 example_grid)
        \<lparr>dug_json := Some [24, 25, 26, 27, 28, 29, 30, 31, 32, 33, 34, 35, 36, 37, 38]\<rparr>]\<rparr>"


text \<open>
  A configuration in which the payload \<open>auth_date=1700000000&hash=%C3%A9\<close> arrives ten seconds after its \<open>auth_date\<close>:
  its hash field decodes to the two bytes of the letter e with acute accent.
\<close>

definition example_env :: env where
  "example_env =
     \<lparr>BOT_TOKEN = Some ''test_bot_token'', time_time = 1700000010,
      parse_qsl = (\<lambda>s. if s = ''auth_date=1700000000&hash=%C3%A9''
                        then Some [(''auth_date'', ''1700000000''), (''hash'', [CHR 0xC3, CHR 0xA9])]
                        else None),
      int_of_str = (\<lambda>s. if s = ''1700000000'' then Some 1700000000 else None),
      json_loads = (\<lambda>s. None),
      hmac_sha256 = (\<lambda>key msg. key @ msg)\<rparr>"

section \<open>Signature validator: properties\<close>

lemma hex_digit_ascii: "n < 16 \<Longrightarrow> of_char (hex_digit n) < (128::nat)"
proof -
  have "\<forall>n \<in> set [0..<16]. of_char (hex_digit n) < (128::nat)"
    by code_simp
  then show "n < 16 \<Longrightarrow> of_char (hex_digit n) < (128::nat)"
    by simp
qed

lemma hexdigest_ascii: "is_ascii (hexdigest digest)"
proof -
  have "of_char c div 16 < (16::nat)" for c :: char
    using nat_of_char_less_256 [of c] by (simp add: less_mult_imp_div_less)
  then show ?thesis
    by (induction digest) (simp_all add: is_ascii_def hexdigest_def hex_digit_ascii)
qed

text \<open>
  What holds of the round trip: a payload whose hash field is the expected hash of its
  other fields, with a fresh \<open>auth_date\<close> and a user object with an id, validates to that
  id; without a hash field, at or past 24 hours, or with a different ASCII hash it is
  answered \<open>None\<close>.
\<close>

lemma validate_init_data_signed:
  assumes "init_data \<noteq> ''mock_init_data''" "BOT_TOKEN e = Some token" "token \<noteq> []"
    "parse_qsl e init_data = Some pairs"
    "map_of (dict pairs) ''auth_date'' = Some auth_date" "int_of_str e auth_date = Some t"
    "time_time e - real_of_int t < 86400"
    "map_of (dict pairs) ''hash''
       = Some (calculated_hash e token (dict_pop ''hash'' (dict pairs)))"
    "map_of (dict_pop ''hash'' (dict pairs)) ''user'' = Some user"
    "json_loads e user = Some (JObj user_data)" "map_of user_data ''id'' = Some v" "v \<noteq> JNull"
  shows "validate_init_data e init_data = Inr (Some v)"
proof -
  have "is_ascii (calculated_hash e token (dict_pop ''hash'' (dict pairs)))"
    by (simp add: calculated_hash_def hexdigest_ascii)
  with assms show ?thesis
    by (cases v) (simp_all add: validate_init_data_def compare_digest_def Let_def)
qed

lemma validate_init_data_rejects:
  assumes "init_data \<noteq> ''mock_init_data''" "BOT_TOKEN e = Some token" "token \<noteq> []"
    "parse_qsl e init_data = Some pairs"
    "map_of (dict pairs) ''auth_date'' = Some auth_date" "int_of_str e auth_date = Some t"
  shows "map_of (dict pairs) ''hash'' = None \<Longrightarrow> validate_init_data e init_data = Inr None"
    and "time_time e - real_of_int t \<ge> 86400 \<Longrightarrow> validate_init_data e init_data = Inr None"
    and "map_of (dict pairs) ''hash'' = Some received_hash \<Longrightarrow> is_ascii received_hash \<Longrightarrow>
         received_hash \<noteq> calculated_hash e token (dict_pop ''hash'' (dict pairs)) \<Longrightarrow>
         validate_init_data e init_data = Inr None"
proof -
  have a: "is_ascii (calculated_hash e token (dict_pop ''hash'' (dict pairs)))"
    by (simp add: calculated_hash_def hexdigest_ascii)
  show "map_of (dict pairs) ''hash'' = None \<Longrightarrow> validate_init_data e init_data = Inr None"
    using assms by (simp add: validate_init_data_def Let_def)
  show "time_time e - real_of_int t \<ge> 86400 \<Longrightarrow> validate_init_data e init_data = Inr None"
    using assms by (simp add: validate_init_data_def Let_def)
  show "map_of (dict pairs) ''hash'' = Some received_hash \<Longrightarrow> is_ascii received_hash \<Longrightarrow>
         received_hash \<noteq> calculated_hash e token (dict_pop ''hash'' (dict pairs)) \<Longrightarrow>
         validate_init_data e init_data = Inr None"
    using assms a by (simp add: validate_init_data_def compare_digest_def Let_def)
qed

text \<open>An \<open>auth_date\<close> that \<open>int\<close> rejects leaves the function as a ValueError.\<close>

lemma validate_init_data_bad_auth_date:
  assumes "init_data \<noteq> ''mock_init_data''" "BOT_TOKEN e = Some token" "token \<noteq> []"
    "parse_qsl e init_data = Some pairs"
    "map_of (dict pairs) ''auth_date'' = Some auth_date" "int_of_str e auth_date = None"
  shows "validate_init_data e init_data = Inl ValueError"
  using assms by (simp add: validate_init_data_def Let_def)

text \<open>
  C1. The claim's rejection of every changed hash fails where the changed character is
  not ASCII: \<open>hmac.compare_digest\<close> then raises TypeError, which nothing catches, so the
  function does not return \<open>None\<close> but dies.
\<close>

theorem validate_init_data_non_ascii_hash:
  assumes "init_data \<noteq> ''mock_init_data''" "BOT_TOKEN e = Some token" "token \<noteq> []"
    "parse_qsl e init_data = Some pairs"
    "map_of (dict pairs) ''auth_date'' = Some auth_date" "int_of_str e auth_date = Some t"
    "time_time e - real_of_int t < 86400"
    "map_of (dict pairs) ''hash'' = Some received_hash" "\<not> is_ascii received_hash"
  shows "validate_init_data e init_data = Inl TypeError"
  using assms
  by (simp add: validate_init_data_def compare_digest_def Let_def)

theorem validate_init_data_non_ascii_hash_witness:
  "validate_init_data example_env ''auth_date=1700000000&hash=%C3%A9'' = Inl TypeError"
proof -
  have "validate_init_data example_env ''auth_date=1700000000&hash=%C3%A9'' = Inl TypeError"
    by (rule validate_init_data_non_ascii_hash
          [where token = "''test_bot_token''" and t = 1700000000
             and auth_date = "''1700000000''"
             and received_hash = "[CHR 0xC3, CHR 0xA9]"
             and pairs = "[(''auth_date'', ''1700000000''), (''hash'', [CHR 0xC3, CHR 0xA9])]"])
       (simp_all add: example_env_def dict_def is_ascii_def)
  then show ?thesis .
qed

section \<open>Map builder: properties\<close>

lemma positions_filter: "positions c g = filter (\<lambda>i. g ! i = c) [0..<length g]"
proof (induction g rule: rev_induct)
  case Nil
  show ?case by (simp add: positions_def)
next
  case (snoc x xs)
  have "filter (\<lambda>i. (xs @ [x]) ! i = c) [0..<length xs] = filter (\<lambda>i. xs ! i = c) [0..<length xs]"
    by (rule filter_cong) (auto simp: nth_append)
  with snoc show ?case
    by (simp add: positions_def enumerate_append_eq)
qed

lemma length_positions: "length (positions c g) = count_cells c g"
proof -
  have "length (filter (\<lambda>(i, x). x = c) (enumerate n g)) = length (filter (\<lambda>x. x = c) g)" for n
    by (induction g arbitrary: n) auto
  then show ?thesis by (simp add: positions_def count_cells_def)
qed

lemma positions_sorted: "sorted (positions c g)" "distinct (positions c g)"
  by (simp_all add: positions_filter sorted_wrt_filter)

lemma set_positions: "set (positions c g) = {i. i < length g \<and> g ! i = c}"
  by (auto simp: positions_filter)

lemma two_sorted: "length xs = 2 \<Longrightarrow> sorted xs \<Longrightarrow> distinct xs \<Longrightarrow> \<exists>a b. xs = [a, b] \<and> a < (b::nat)"
  by (cases xs; cases "tl xs") (auto simp: order_less_le)

lemma adjacent_iff:
  assumes "count_cells 4 g = 2"
  shows "\<bar>int (positions 4 g ! 0) - int (positions 4 g ! 1)\<bar> = 1
         \<longleftrightarrow> (\<exists>i. Suc i < length g \<and> g ! i = 4 \<and> g ! Suc i = 4)"
proof -
  from assms have "length (positions 4 g) = 2" by (simp add: length_positions)
  then obtain a b where ab: "positions 4 g = [a, b]" "a < b"
    using two_sorted positions_sorted by blast
  have s: "{i. i < length g \<and> g ! i = 4} = {a, b}"
    using set_positions [of 4 g] ab by simp
  show ?thesis
  proof
    assume "\<bar>int (positions 4 g ! 0) - int (positions 4 g ! 1)\<bar> = 1"
    with ab have "b = Suc a" by simp
    moreover have "a \<in> {a, b}" "b \<in> {a, b}" by simp_all
    ultimately show "\<exists>i. Suc i < length g \<and> g ! i = 4 \<and> g ! Suc i = 4"
      unfolding s [symmetric] by blast
  next
    assume "\<exists>i. Suc i < length g \<and> g ! i = 4 \<and> g ! Suc i = 4"
    then obtain i where i: "Suc i < length g" "g ! i = 4" "g ! Suc i = 4" by blast
    then have "i \<in> {a, b}" "Suc i \<in> {a, b}" unfolding s [symmetric] by simp_all
    with ab have "a = i \<and> b = Suc i" by auto
    with ab show "\<bar>int (positions 4 g ! 0) - int (positions 4 g ! 1)\<bar> = 1" by simp
  qed
qed

lemma count_cells_count_list: "count_cells c g = count_list g c"
  by (induction g) (auto simp: count_cells_def)

lemma well_formed_grid_code:
  "well_formed_grid g \<longleftrightarrow>
     length g = 48 \<and> count_cells 2 g = 4 \<and> count_cells 3 g = 2 \<and> count_cells 4 g = 2
     \<and> length (positions 4 g) = 2
     \<and> \<bar>int (positions 4 g ! 0) - int (positions 4 g ! 1)\<bar> = 1"
proof (cases "length g = 48 \<and> count_cells 4 g = 2")
  case True
  then have "list_ex (\<lambda>i. g ! i = 4 \<and> g ! Suc i = 4) [0..<47]
             \<longleftrightarrow> (\<exists>i. Suc i < length g \<and> g ! i = 4 \<and> g ! Suc i = 4)"
    by (auto simp: list_ex_iff)
  also have "\<dots> \<longleftrightarrow> \<bar>int (positions 4 g ! 0) - int (positions 4 g ! 1)\<bar> = 1"
    using True adjacent_iff [of g] by (simp only:)
  finally have adj: "list_ex (\<lambda>i. g ! i = 4 \<and> g ! Suc i = 4) [0..<47]
             \<longleftrightarrow> \<bar>int (positions 4 g ! 0) - int (positions 4 g ! 1)\<bar> = 1" .
  show ?thesis
    unfolding well_formed_grid_def adj
    using True by (auto simp: count_cells_count_list length_positions)
next
  case False
  then show ?thesis
    by (auto simp: well_formed_grid_def count_cells_count_list)
qed

lemma maps_create_rejects:
  assumes "\<not> well_formed_grid g" "uid \<noteq> 0"
  shows "validation_error (fst (maps_create d (Some uid) (Some g)))
         \<and> snd (maps_create d (Some uid) (Some g)) = d"
  using assms unfolding well_formed_grid_code
  by (auto simp: maps_create_def py_not_def validation_error_def Let_def)

lemma maps_create_accepts:
  assumes "well_formed_grid g" "uid \<noteq> 0"
  shows "maps_create d (Some uid) (Some g) =
     (case users d uid of
        None \<Rightarrow> (JsonError ''No credits'' 400, d)
      | Some u \<Rightarrow>
          if builder_credits u \<le> 0 then (JsonError ''No credits'' 400, d)
          else (CreateSuccess,
                insert_maps uid g
                  (d\<lparr>users := (users d)(uid \<mapsto> u\<lparr>builder_credits := builder_credits u - 1\<rparr>)\<rparr>)))"
proof -
  from assms(1) have g: "length g = 48" "g \<noteq> []" "count_cells 2 g = 4" "count_cells 3 g = 2"
    "count_cells 4 g = 2" "length (positions 4 g) = 2"
    "\<bar>int (positions 4 g ! 0) - int (positions 4 g ! 1)\<bar> = 1"
    unfolding well_formed_grid_code by auto
  show ?thesis
    using assms(2) g
    by (simp add: maps_create_def py_not_def Let_def update_users_def split: option.splits)
qed

text \<open>
  C2. For a grid of length 48 with exactly 4 traps, 2 pits and 2 chest halves at
  neighbouring indices, \<open>maps_create\<close> succeeds exactly when the caller holds at least one
  builder credit, and then the caller's credits have dropped by exactly one. For any other
  grid the answer is one of the three validation errors and the database is untouched.
\<close>

theorem maps_create_credit:
  assumes "uid \<noteq> 0"
  shows "(well_formed_grid g \<longrightarrow>
            (fst (maps_create d (Some uid) (Some g)) = CreateSuccess
               \<longleftrightarrow> (\<exists>u. users d uid = Some u \<and> 1 \<le> builder_credits u))
          \<and> (\<forall>u. users d uid = Some u \<longrightarrow>
                fst (maps_create d (Some uid) (Some g)) = CreateSuccess \<longrightarrow>
                map_option builder_credits (users (snd (maps_create d (Some uid) (Some g))) uid)
                  = Some (builder_credits u - 1)))
       \<and> (\<not> well_formed_grid g \<longrightarrow>
            validation_error (fst (maps_create d (Some uid) (Some g)))
          \<and> snd (maps_create d (Some uid) (Some g)) = d)"
proof (cases "well_formed_grid g")
  case True
  show ?thesis
    using True maps_create_accepts [OF True assms, of d]
    by (auto simp: insert_maps_def Let_def split: option.splits if_splits)
next
  case False
  with maps_create_rejects [OF False assms, of d] show ?thesis by simp
qed

theorem maps_create_credit_witness:
  "fst (maps_create example_db (Some 1) (Some example_grid)) = CreateSuccess
   \<and> map_option builder_credits
        (users (snd (maps_create example_db (Some 1) (Some example_grid))) 1) = Some 4
   \<and> validation_error (fst (maps_create example_db (Some 1) (Some [2, 2, 2, 2])))
   \<and> snd (maps_create example_db (Some 1) (Some [2, 2, 2, 2])) = example_db"
proof -
  have wf: "well_formed_grid example_grid" by code_simp
  have nwf: "\<not> well_formed_grid [2, 2, 2, 2]" by (simp add: well_formed_grid_def)
  have u: "users example_db 1 = Some \<lparr>username = ''user_1'', balance = 1, builder_credits = 5\<rparr>"
    by (simp add: example_db_def)
  show ?thesis
    using maps_create_credit [of 1 example_grid example_db]
      maps_create_credit [of 1 "[2, 2, 2, 2]" example_db] wf nwf u
    by simp
qed

text \<open>
  C9. The handler counts the wall cells (\<open>walls\<close>) but never compares the count with 16:
  every well-formed grid is stored for a caller with a credit, whatever its number of
  walls. The witness is a 48-cell grid without any wall.
\<close>

theorem maps_create_wall_count_unchecked:
  assumes "well_formed_grid g" "uid \<noteq> 0" "users d uid = Some u" "1 \<le> builder_credits u"
  shows "fst (maps_create d (Some uid) (Some g)) = CreateSuccess
       \<and> maps (snd (maps_create d (Some uid) (Some g))) (maps_id_seq d + 1)
           = Some (new_map uid g)"
  using assms maps_create_accepts [OF assms(1,2), of d]
  by (simp add: insert_maps_def Let_def)

theorem maps_create_wall_count_unchecked_witness:
  "length wall_free_grid = 48 \<and> count_cells 1 wall_free_grid = 0
   \<and> fst (maps_create example_db (Some 1) (Some wall_free_grid)) = CreateSuccess
   \<and> map_option grid_json (maps (snd (maps_create example_db (Some 1) (Some wall_free_grid))) 1)
       = Some (Some wall_free_grid)"
proof -
  have wf: "well_formed_grid wall_free_grid" by code_simp
  have c: "count_cells 1 wall_free_grid = 0" "length wall_free_grid = 48"
    by (simp_all add: count_cells_def wall_free_grid_def)
  have u: "users example_db 1 = Some \<lparr>username = ''user_1'', balance = 1, builder_credits = 5\<rparr>"
    and q: "maps_id_seq example_db = 0"
    by (simp_all add: example_db_def)
  from maps_create_wall_count_unchecked [OF wf _ u] c q show ?thesis
    by (simp add: new_map_def)
qed

section \<open>Raid session engine: properties\<close>

lemma filter_enumerate:
  "map fst (filter (\<lambda>(i, x). P i x) (enumerate 0 g)) = filter (\<lambda>i. P i (g ! i)) [0..<length g]"
proof (induction g rule: rev_induct)
  case Nil
  show ?case by simp
next
  case (snoc x xs)
  have "filter (\<lambda>i. P i ((xs @ [x]) ! i)) [0..<length xs] = filter (\<lambda>i. P i (xs ! i)) [0..<length xs]"
    by (rule filter_cong) (auto simp: nth_append)
  with snoc show ?case
    by (simp add: enumerate_append_eq)
qed

lemma safe_cells_remaining: "safe_cells grid dug = remaining_safe_cells grid dug"
proof -
  have "safe_cells grid dug
        = length (map fst (filter (\<lambda>(i, x). (x = 0 \<or> x = 4) \<and> int i \<notin> set dug) (enumerate 0 grid)))"
    by (simp add: safe_cells_def)
  also have "\<dots> = remaining_safe_cells grid dug"
    unfolding remaining_safe_cells_def
    by (subst filter_enumerate [of "\<lambda>i x. (x = 0 \<or> x = 4) \<and> int i \<notin> set dug"]) simp
  finally show ?thesis .
qed

lemma started_session1: "raid_sessions started_db 1 = Some (new_session 2 1 0 120)"
  by (simp add: started_db_def)

lemma started_map1: "maps started_db 1 = Some (new_map 1 example_grid)"
  by (simp add: started_db_def raid_db_def)

lemma remaining_claimable:
  "remaining_safe_cells example_grid [24, 25, 26, 27, 28, 29, 30, 31, 32, 33, 34, 35, 36, 37, 38] = 11"
  by code_simp

lemma remaining_fresh: "remaining_safe_cells example_grid [] = 26"
  by code_simp


lemma raid_dig_raises:
  assumes "uid \<noteq> 0" "raid_sessions d sid = Some s" "player_id s = uid" "0 \<le> cell" "cell < 48"
  shows "raid_dig d now (Some uid) (Some sid) (Some cell) = (Uncaught TypeError, d)"
  using assms
  by (simp add: raid_dig_def py_not_def fromisoformat_def split: option.splits)

text \<open>
  C3. On the inputs of the claim (a session of the caller that has not expired, a cell
  index in range that is not in the session's history, a trap in that cell of the map)
  \<open>raid_dig\<close> does not reach the trap branch: \<open>datetime.fromisoformat\<close> is given the
  \<open>datetime\<close> of the TIMESTAMP column and raises TypeError. The request dies, the answer
  is not \<open>dead\<close> with reward 0, and the session's status and the map's dug list are what
  they were.
\<close>

theorem raid_dig_trap_raises:
  assumes "uid \<noteq> 0" "raid_sessions d sid = Some s" "player_id s = uid"
    "expires_at s = Some expires" "now \<le> expires" "0 \<le> cell" "cell < 48"
    "cell \<notin> set (case dug_history s of None \<Rightarrow> [] | Some h \<Rightarrow> h)"
    "maps d (map_id s) = Some m" "grid_json m = Some grid" "dug_json m = Some dug"
    "nat cell < length grid" "grid ! nat cell = 2"
  shows "raid_dig d now (Some uid) (Some sid) (Some cell) = (Uncaught TypeError, d)
       \<and> fst (raid_dig d now (Some uid) (Some sid) (Some cell)) \<noteq> DigDead 0
       \<and> raid_sessions (snd (raid_dig d now (Some uid) (Some sid) (Some cell))) sid = Some s
       \<and> maps (snd (raid_dig d now (Some uid) (Some sid) (Some cell))) (map_id s) = Some m"
  using assms raid_dig_raises [of uid d sid s cell now]
  by simp

theorem raid_dig_trap_raises_witness:
  "fst (raid_dig started_db 10 (Some 2) (Some 1) (Some 16)) = Uncaught TypeError
   \<and> map_option status (raid_sessions (snd (raid_dig started_db 10 (Some 2) (Some 1) (Some 16))) 1)
       = Some ''active''
   \<and> map_option dug_json (maps (snd (raid_dig started_db 10 (Some 2) (Some 1) (Some 16))) 1)
       = Some (Some [])"
proof -
  have t: "raid_dig started_db 10 (Some 2) (Some 1) (Some 16) = (Uncaught TypeError, started_db)
      \<and> fst (raid_dig started_db 10 (Some 2) (Some 1) (Some 16)) \<noteq> DigDead 0
      \<and> raid_sessions (snd (raid_dig started_db 10 (Some 2) (Some 1) (Some 16))) 1
          = Some (new_session 2 1 0 120)
      \<and> maps (snd (raid_dig started_db 10 (Some 2) (Some 1) (Some 16)))
          (map_id (new_session 2 1 0 120)) = Some (new_map 1 example_grid)"
    by (rule raid_dig_trap_raises [where grid = example_grid and dug = "[]" and expires = 120])
      (simp_all add: started_session1 started_map1 new_session_def new_map_def example_grid_def)
  note answer = t [THEN conjunct1]
  note session = t [THEN conjunct2, THEN conjunct2, THEN conjunct1]
  note map_row = t [THEN conjunct2, THEN conjunct2, THEN conjunct2]
  have "map_id (new_session 2 1 0 120) = 1"
    by (simp add: new_session_def)
  with map_row have map_row':
    "maps (snd (raid_dig started_db 10 (Some 2) (Some 1) (Some 16))) 1
       = Some (new_map 1 example_grid)"
    by (simp only:)
  have "fst (raid_dig started_db 10 (Some 2) (Some 1) (Some 16)) = Uncaught TypeError"
    by (simp only: answer fst_conv)
  moreover have "map_option status
      (raid_sessions (snd (raid_dig started_db 10 (Some 2) (Some 1) (Some 16))) 1)
      = Some ''active''"
    unfolding session by (simp add: new_session_def)
  moreover have "map_option dug_json
      (maps (snd (raid_dig started_db 10 (Some 2) (Some 1) (Some 16))) 1) = Some (Some [])"
    unfolding map_row' by (simp add: new_map_def)
  ultimately show ?thesis by (simp only: simp_thms)
qed

text \<open>
  C4. On the inputs of the claim (a session of the caller whose \<open>expires_at\<close> lies in the
  past, a valid cell index) \<open>raid_dig\<close> does not answer \<open>timeout\<close> and does not set the
  session's status: the expiry test itself raises TypeError, on the first call and on
  every later one. Nothing is written.
\<close>

theorem raid_dig_expired_raises:
  assumes "uid \<noteq> 0" "raid_sessions d sid = Some s" "player_id s = uid"
    "0 \<le> cell" "cell < 48" "expires_at s = Some expires" "expires < now" "now \<le> later"
  shows "raid_dig d now (Some uid) (Some sid) (Some cell) = (Uncaught TypeError, d)
       \<and> fst (raid_dig d now (Some uid) (Some sid) (Some cell)) \<noteq> DigTimeout
       \<and> raid_sessions (snd (raid_dig d now (Some uid) (Some sid) (Some cell))) sid = Some s
       \<and> raid_dig (snd (raid_dig d now (Some uid) (Some sid) (Some cell))) later
             (Some uid) (Some sid) (Some cell)
           = (Uncaught TypeError, d)"
  using assms raid_dig_raises [of uid d sid s cell now] raid_dig_raises [of uid d sid s cell later]
  by simp

theorem raid_dig_expired_raises_witness:
  "fst (raid_dig started_db 121 (Some 2) (Some 1) (Some 16)) = Uncaught TypeError
   \<and> map_option status (raid_sessions (snd (raid_dig started_db 121 (Some 2) (Some 1) (Some 16))) 1)
       = Some ''active''
   \<and> fst (raid_dig (snd (raid_dig started_db 121 (Some 2) (Some 1) (Some 16))) 122
            (Some 2) (Some 1) (Some 16)) = Uncaught TypeError"
proof -
  have "2 \<noteq> (0::int)" "player_id (new_session 2 1 0 120) = 2" "(0::int) \<le> 16" "(16::int) < 48"
    "expires_at (new_session 2 1 0 120) = Some 120" "(120::real) < 121" "(121::real) \<le> 122"
    by (simp_all add: new_session_def)
  note t = raid_dig_expired_raises [OF this(1) started_session1 this(2-7)]
  note answer = t [THEN conjunct1]
  note session = t [THEN conjunct2, THEN conjunct2, THEN conjunct1]
  note again = t [THEN conjunct2, THEN conjunct2, THEN conjunct2]
  have "fst (raid_dig started_db 121 (Some 2) (Some 1) (Some 16)) = Uncaught TypeError"
    by (simp only: answer fst_conv)
  moreover have "map_option status
      (raid_sessions (snd (raid_dig started_db 121 (Some 2) (Some 1) (Some 16))) 1)
      = Some ''active''"
    unfolding session by (simp add: new_session_def)
  moreover have "fst (raid_dig (snd (raid_dig started_db 121 (Some 2) (Some 1) (Some 16))) 122
      (Some 2) (Some 1) (Some 16)) = Uncaught TypeError"
    by (simp only: again fst_conv)
  ultimately show ?thesis by (simp only: simp_thms)
qed

text \<open>
  C5. \<open>raid_leave\<close> on a session of the caller adds the session's \<open>earnings_buffer\<close> to the
  caller's balance, appends one ledger entry of that amount and type \<open>raid_win\<close>, and sets
  the session's status to \<open>completed\<close>. The session's current status is not a condition:
  the witness leaves a session that is already \<open>dead\<close>. (The caller's row exists: the
  table's foreign key on \<open>player_id\<close> guarantees it for every stored session.)
\<close>

theorem raid_leave_transfers:
  assumes "uid \<noteq> 0" "raid_sessions d sid = Some s" "player_id s = uid" "users d uid = Some u"
  shows "fst (raid_leave d (Some uid) (Some sid)) = LeaveSuccess (earnings_buffer s)
       \<and> users (snd (raid_leave d (Some uid) (Some sid)))
           = (users d)(uid \<mapsto> u\<lparr>balance := balance u + earnings_buffer s\<rparr>)
       \<and> transactions (snd (raid_leave d (Some uid) (Some sid)))
           = transactions d @ [\<lparr>user_id = uid, amount = earnings_buffer s, txn_type = ''raid_win''\<rparr>]
       \<and> raid_sessions (snd (raid_leave d (Some uid) (Some sid)))
           = (raid_sessions d)(sid \<mapsto> s\<lparr>status := ''completed''\<rparr>)
       \<and> maps (snd (raid_leave d (Some uid) (Some sid))) = maps d"
  using assms
  by (simp add: raid_leave_def py_not_def Let_def update_users_def insert_transactions_def
      update_raid_sessions_def)

theorem raid_leave_transfers_witness:
  "fst (raid_leave played_db (Some 2) (Some 1)) = LeaveSuccess (1 / 100)
   \<and> map_option balance (users (snd (raid_leave played_db (Some 2) (Some 1))) 2) = Some (101 / 100)
   \<and> transactions (snd (raid_leave played_db (Some 2) (Some 1)))
       = [\<lparr>user_id = 2, amount = 1 / 100, txn_type = ''raid_win''\<rparr>]
   \<and> map_option status (raid_sessions played_db 1) = Some ''dead''
   \<and> map_option status (raid_sessions (snd (raid_leave played_db (Some 2) (Some 1))) 1)
       = Some ''completed''"
  using raid_leave_transfers [of 2 played_db 1 dead_session
      "\<lparr>username = ''user_2'', balance = 1, builder_credits = 5\<rparr>"]
  by (simp add: played_db_def raid_db_def dead_session_def)

text \<open>
  C10. \<open>raid_leave\<close> does not reset \<open>earnings_buffer\<close>: after a leave the field holds what
  it held, and a second leave of the same session succeeds, adds the same amount to the
  balance once more and appends a second \<open>raid_win\<close> entry of that amount.
\<close>

theorem raid_leave_twice:
  assumes "uid \<noteq> 0" "raid_sessions d sid = Some s" "player_id s = uid" "users d uid = Some u"
  shows "map_option earnings_buffer (raid_sessions (snd (raid_leave d (Some uid) (Some sid))) sid)
           = Some (earnings_buffer s)
       \<and> fst (raid_leave (snd (raid_leave d (Some uid) (Some sid))) (Some uid) (Some sid))
           = LeaveSuccess (earnings_buffer s)
       \<and> map_option balance
           (users (snd (raid_leave (snd (raid_leave d (Some uid) (Some sid))) (Some uid) (Some sid))) uid)
           = Some (balance u + earnings_buffer s + earnings_buffer s)
       \<and> transactions (snd (raid_leave (snd (raid_leave d (Some uid) (Some sid))) (Some uid) (Some sid)))
           = transactions d
             @ [\<lparr>user_id = uid, amount = earnings_buffer s, txn_type = ''raid_win''\<rparr>,
                \<lparr>user_id = uid, amount = earnings_buffer s, txn_type = ''raid_win''\<rparr>]"
  using assms
  by (simp add: raid_leave_def py_not_def Let_def update_users_def insert_transactions_def
      update_raid_sessions_def)

theorem raid_leave_twice_witness:
  "map_option earnings_buffer (raid_sessions (snd (raid_leave played_db (Some 2) (Some 1))) 1)
     = Some (1 / 100)
   \<and> map_option balance
       (users (snd (raid_leave (snd (raid_leave played_db (Some 2) (Some 1))) (Some 2) (Some 1))) 2)
     = Some (102 / 100)
   \<and> length (transactions
        (snd (raid_leave (snd (raid_leave played_db (Some 2) (Some 1))) (Some 2) (Some 1)))) = 2"
  using raid_leave_twice [of 2 played_db 1 dead_session
      "\<lparr>username = ''user_2'', balance = 1, builder_credits = 5\<rparr>"]
  by (simp add: played_db_def raid_db_def dead_session_def)

text \<open>
  C6. For a map owned by the caller, \<open>my_tombs_claim\<close> succeeds exactly when fewer than 12
  safe cells remain. A successful claim sets the map's \<open>active\<close> flag to false, adds the
  fixed reward 1.0 to the owner's balance and appends one ledger entry of type \<open>claim\<close>,
  and changes nothing else; with 12 or more safe cells left the claim is rejected and the
  database is unchanged.
\<close>

theorem my_tombs_claim_threshold:
  assumes "uid \<noteq> 0" "maps d mid = Some m" "creator_id m = uid"
    "grid_json m = Some grid" "dug_json m = Some dug" "users d uid = Some u"
  shows "(fst (my_tombs_claim d (Some uid) (Some mid)) = ClaimSuccess 1
            \<longleftrightarrow> remaining_safe_cells grid dug < 12)
       \<and> (remaining_safe_cells grid dug < 12 \<longrightarrow>
            snd (my_tombs_claim d (Some uid) (Some mid))
              = d\<lparr>maps := (maps d)(mid \<mapsto> m\<lparr>active := False\<rparr>),
                  users := (users d)(uid \<mapsto> u\<lparr>balance := balance u + 1\<rparr>),
                  transactions := transactions d
                     @ [\<lparr>user_id = uid, amount = 1, txn_type = ''claim''\<rparr>]\<rparr>)
       \<and> (12 \<le> remaining_safe_cells grid dug \<longrightarrow>
            my_tombs_claim d (Some uid) (Some mid) = (JsonError ''Not ready to claim'' 400, d))"
  using assms
  by (simp add: my_tombs_claim_def py_not_def Let_def update_users_def insert_transactions_def
      update_maps_def safe_cells_remaining)

theorem my_tombs_claim_threshold_witness:
  "fst (my_tombs_claim claimable_db (Some 1) (Some 1)) = ClaimSuccess 1
   \<and> map_option active (maps (snd (my_tombs_claim claimable_db (Some 1) (Some 1))) 1) = Some False
   \<and> map_option balance (users (snd (my_tombs_claim claimable_db (Some 1) (Some 1))) 1) = Some 2
   \<and> transactions (snd (my_tombs_claim claimable_db (Some 1) (Some 1)))
       = [\<lparr>user_id = 1, amount = 1, txn_type = ''claim''\<rparr>]
   \<and> my_tombs_claim raid_db (Some 1) (Some 1) = (JsonError ''Not ready to claim'' 400, raid_db)"
  using my_tombs_claim_threshold [of 1 claimable_db 1
      "(new_map 1 example_grid)\<lparr>dug_json := Some [24, 25, 26, 27, 28, 29, 30, 31, 32, 33, 34, 35, 36, 37, 38]\<rparr>"
      example_grid "[24, 25, 26, 27, 28, 29, 30, 31, 32, 33, 34, 35, 36, 37, 38]"
      "\<lparr>username = ''user_1'', balance = 1, builder_credits = 4\<rparr>"]
    my_tombs_claim_threshold [of 1 raid_db 1 "new_map 1 example_grid" example_grid "[]"
      "\<lparr>username = ''user_1'', balance = 1, builder_credits = 4\<rparr>"]
    remaining_claimable remaining_fresh
  by (simp add: claimable_db_def raid_db_def new_map_def)







end
